theory Spec2Isabelle
  imports Complex_Main "HOL-Library.AList"
begin

section \<open>Numbers\<close>

text \<open>
  The program computes with JavaScript numbers (IEEE 754 binary64). A \<open>jsnum\<close> is a
  finite number, NaN or an infinity. The statistics and the scoring work on the timings of
  the current session, a few milliseconds to a few minutes; they are modelled over the real
  numbers, without rounding, and a quotient of theirs is a \<open>jsnum\<close>, so that \<open>0 / 0\<close> is
  NaN and \<open>x / 0\<close> an infinity (every zero divisor of this program is a positive zero). The
  profile comparison receives the numbers of saved and imported profiles, of any magnitude;
  it is modelled with the rounding, overflow and underflow of binary64, further below.
\<close>

datatype jsnum = Fin real | NaN | PosInf | NegInf

definition js_div :: "real \<Rightarrow> real \<Rightarrow> jsnum" where
  "js_div a b =
     (if b \<noteq> 0 then Fin (a / b)
      else if a = 0 then NaN
      else if a > 0 then PosInf else NegInf)"

text \<open>Multiplication of a number by a finite factor, as in \<open>(std / avgTime) * 100\<close>.\<close>

definition js_times :: "jsnum \<Rightarrow> real \<Rightarrow> jsnum" where
  "js_times x c =
     (case x of
        Fin r \<Rightarrow> Fin (r * c)
      | NaN \<Rightarrow> NaN
      | PosInf \<Rightarrow> (if c = 0 then NaN else if c > 0 then PosInf else NegInf)
      | NegInf \<Rightarrow> (if c = 0 then NaN else if c > 0 then NegInf else PosInf))"

text \<open>The comparisons \<open>x < c\<close> and \<open>x > c\<close> against a finite number; both are false for NaN.\<close>

definition js_less :: "jsnum \<Rightarrow> real \<Rightarrow> bool" where
  "js_less x c = (case x of Fin r \<Rightarrow> r < c | NaN \<Rightarrow> False | PosInf \<Rightarrow> False | NegInf \<Rightarrow> True)"

definition js_greater :: "jsnum \<Rightarrow> real \<Rightarrow> bool" where
  "js_greater x c = (case x of Fin r \<Rightarrow> r > c | NaN \<Rightarrow> False | PosInf \<Rightarrow> True | NegInf \<Rightarrow> False)"

definition isFinite :: "jsnum \<Rightarrow> bool" where
  "isFinite x = (case x of Fin r \<Rightarrow> True | _ \<Rightarrow> False)"

text \<open>\<open>Math.round\<close>: the nearest integer, a tie going towards positive infinity.\<close>

definition Math_round :: "real \<Rightarrow> int" where
  "Math_round x = \<lfloor>x + 1 / 2\<rfloor>"

subsection \<open>Binary64 arithmetic\<close>

text \<open>
  Rounding of a real number to the nearest binary64 value, a tie going to the value with
  the even significand. \<open>ulp_of x\<close> is the spacing of the binary64 values around \<open>x\<close>:
  2 to the power \<open>e - 52\<close> where \<open>e\<close> is the binary exponent of \<open>x\<close>, in the normal
  range, and 2 to the power \<open>-1074\<close> for a magnitude below 2 to the power \<open>-1022\<close>
  (the subnormal numbers). A result of magnitude 2 to the power 1024 or more overflows to
  an infinity, and a magnitude below half the smallest subnormal number rounds to zero. The
  sign of a zero is not modelled; no operation of the comparison can tell it.
\<close>

definition round_half_even :: "real \<Rightarrow> int" where
  "round_half_even y =
     (let f = \<lfloor>y\<rfloor>; d = y - of_int f
      in if d < 1 / 2 then f
         else if d > 1 / 2 then f + 1
         else if even f then f else f + 1)"

definition ulp_of :: "real \<Rightarrow> real" where
  "ulp_of x =
     (if \<bar>x\<bar> < 1 / 2 ^ 1022 then 1 / 2 ^ 1074
      else 2 powr (of_int \<lfloor>log 2 \<bar>x\<bar>\<rfloor> - 52))"

definition rnd :: "real \<Rightarrow> jsnum" where
  "rnd x =
     (if \<bar>x\<bar> \<ge> 2 ^ 1024 then (if x > 0 then PosInf else NegInf)
      else
        let y = of_int (round_half_even (x / ulp_of x)) * ulp_of x
        in if \<bar>y\<bar> \<ge> 2 ^ 1024 then (if x > 0 then PosInf else NegInf) else Fin y)"

text \<open>
  The operations \<open>+\<close>, \<open>*\<close>, \<open>Math.sqrt\<close> and \<open>/\<close> on JavaScript numbers: the exact
  result of finite operands, rounded; the IEEE 754 results for NaN and the infinities.
  \<open>Math.sqrt\<close> is taken as correctly rounded, as the engines implement it.
\<close>

fun fl_add :: "jsnum \<Rightarrow> jsnum \<Rightarrow> jsnum" where
  "fl_add (Fin a) (Fin b) = rnd (a + b)"
| "fl_add NaN _ = NaN"
| "fl_add _ NaN = NaN"
| "fl_add PosInf NegInf = NaN"
| "fl_add NegInf PosInf = NaN"
| "fl_add PosInf _ = PosInf"
| "fl_add _ PosInf = PosInf"
| "fl_add NegInf _ = NegInf"
| "fl_add _ NegInf = NegInf"

fun fl_mul :: "jsnum \<Rightarrow> jsnum \<Rightarrow> jsnum" where
  "fl_mul (Fin a) (Fin b) = rnd (a * b)"
| "fl_mul NaN _ = NaN"
| "fl_mul _ NaN = NaN"
| "fl_mul PosInf (Fin b) = (if b = 0 then NaN else if b > 0 then PosInf else NegInf)"
| "fl_mul NegInf (Fin b) = (if b = 0 then NaN else if b > 0 then NegInf else PosInf)"
| "fl_mul (Fin a) PosInf = (if a = 0 then NaN else if a > 0 then PosInf else NegInf)"
| "fl_mul (Fin a) NegInf = (if a = 0 then NaN else if a > 0 then NegInf else PosInf)"
| "fl_mul PosInf PosInf = PosInf"
| "fl_mul PosInf NegInf = NegInf"
| "fl_mul NegInf PosInf = NegInf"
| "fl_mul NegInf NegInf = PosInf"

fun fl_sqrt :: "jsnum \<Rightarrow> jsnum" where
  "fl_sqrt (Fin a) = (if a < 0 then NaN else rnd (sqrt a))"
| "fl_sqrt PosInf = PosInf"
| "fl_sqrt NegInf = NaN"
| "fl_sqrt NaN = NaN"

fun fl_div :: "jsnum \<Rightarrow> jsnum \<Rightarrow> jsnum" where
  "fl_div (Fin a) (Fin b) =
     (if b \<noteq> 0 then rnd (a / b)
      else if a = 0 then NaN
      else if a > 0 then PosInf else NegInf)"
| "fl_div NaN _ = NaN"
| "fl_div _ NaN = NaN"
| "fl_div (Fin a) _ = Fin 0"
| "fl_div PosInf (Fin b) = (if b \<ge> 0 then PosInf else NegInf)"
| "fl_div NegInf (Fin b) = (if b \<ge> 0 then NegInf else PosInf)"
| "fl_div _ _ = NaN"

text \<open>A number is finite and within \<open>tol\<close> of \<open>c\<close>.\<close>

definition js_near :: "jsnum \<Rightarrow> real \<Rightarrow> real \<Rightarrow> bool" where
  "js_near x c tol = (case x of Fin r \<Rightarrow> \<bar>r - c\<bar> \<le> tol | _ \<Rightarrow> False)"

section \<open>Statistics helpers\<close>

text \<open>
  \<^verbatim>\<open>function average(arr) {
    if (arr.length === 0) return 0;
    return arr.reduce((a, b) => a + b, 0) / arr.length; }\<close>
\<close>

definition average :: "real list \<Rightarrow> real" where
  "average arr =
     (if length arr = 0 then 0
      else foldl (\<lambda>a b. a + b) 0 arr / real (length arr))"

text \<open>
  \<^verbatim>\<open>function standardDeviation(arr) {
    if (arr.length === 0) return 0;
    const avg = average(arr);
    const squareDiffs = arr.map(value => Math.pow(value - avg, 2));
    return Math.sqrt(average(squareDiffs)); }\<close>
\<close>

definition standardDeviation :: "real list \<Rightarrow> real" where
  "standardDeviation arr =
     (if length arr = 0 then 0
      else let avg = average arr;
               squareDiffs = map (\<lambda>value. (value - avg) ^ 2) arr
           in sqrt (average squareDiffs))"

section \<open>Capture state\<close>

text \<open>
  An entry of \<open>state.events\<close>: \<^verbatim>\<open>{type:'down'|'up', code, key, t}\<close>, with the extra
  field \<open>dwell\<close> on the entries pushed by the keyup handler (absent, that is
  \<open>undefined\<close>, on the others).
\<close>

datatype evtype = Down | Up

record event =
  ev_type :: evtype
  ev_code :: string
  ev_key :: string
  ev_t :: real
  ev_dwell :: "real option"

text \<open>What the handlers read of the browser's keyboard event.\<close>

record keyboard_event =
  e_code :: string
  e_key :: string
  e_isComposing :: bool

text \<open>A value of \<open>state.keyStates\<close>: \<^verbatim>\<open>{ downTime: t, key: sanitizedKey }\<close>.\<close>

record key_state =
  downTime :: real
  ks_key :: string

text \<open>A value of \<open>state.digraphs\<close>: \<^verbatim>\<open>{ DD: [], UD: [], DU: [], UU: [] }\<close>.\<close>

record digraph_timings =
  DD :: "real list"
  UD :: "real list"
  DU :: "real list"
  UU :: "real list"

text \<open>The object assigned to \<open>state.metrics\<close> by \<open>calculateMetrics\<close>.\<close>

record metrics =
  totalKeys :: nat
  duration :: real
  avgDwell :: real
  stdDwell :: real
  avgFlight :: real
  stdFlight :: real
  avgDD :: real
  stdDD :: real
  wpm :: int
  dwellTimes :: "real list"
  flightTimes :: "real list"
  ddTimes :: "real list"

text \<open>
  The global \<open>state\<close> object (its profile list is modelled with the import, below).
  \<open>metrics\<close> is \<open>None\<close> for the field-less object \<^verbatim>\<open>{}\<close> that the initial state
  and \<open>clearAll\<close> store. \<open>keyStates\<close> is a JavaScript Map used by key only;
  \<open>digraphs\<close> is a Map whose iteration order (insertion order) is observable, hence an
  association list with distinct keys.
\<close>

record state =
  running :: bool
  startedAt :: real
  events :: "event list"
  metrics :: "metrics option"
  keyStates :: "string \<rightharpoonup> key_state"
  digraphs :: "(string \<times> digraph_timings) list"

definition initial_state :: state where
  "initial_state =
     \<lparr>running = False, startedAt = 0, events = [], metrics = None,
      keyStates = Map.empty, digraphs = []\<rparr>"

text \<open>
  \<^verbatim>\<open>if (!state.digraphs.has(digraph)) {
    state.digraphs.set(digraph, { DD: [], UD: [], DU: [], UU: [] }); }\<close>
  A new key goes to the end of the Map's iteration order.
\<close>

definition ensure_digraph ::
  "string \<Rightarrow> (string \<times> digraph_timings) list \<Rightarrow> (string \<times> digraph_timings) list" where
  "ensure_digraph digraph m =
     (if map_of m digraph = None then m @ [(digraph, \<lparr>DD = [], UD = [], DU = [], UU = []\<rparr>)]
      else m)"

text \<open>\<^verbatim>\<open>state.digraphs.get(digraph).DD.push(x)\<close> and the same for \<open>UD\<close>.\<close>

fun modify_digraph ::
  "string \<Rightarrow> (digraph_timings \<Rightarrow> digraph_timings) \<Rightarrow>
   (string \<times> digraph_timings) list \<Rightarrow> (string \<times> digraph_timings) list" where
  "modify_digraph k f [] = []"
| "modify_digraph k f (p # ps) =
     (if fst p = k then (k, f (snd p)) # ps else p # modify_digraph k f ps)"

definition push_DD ::
  "string \<Rightarrow> real \<Rightarrow> (string \<times> digraph_timings) list \<Rightarrow> (string \<times> digraph_timings) list" where
  "push_DD digraph x m =
     modify_digraph digraph (\<lambda>d. d\<lparr>DD := DD d @ [x]\<rparr>) (ensure_digraph digraph m)"

definition push_UD ::
  "string \<Rightarrow> real \<Rightarrow> (string \<times> digraph_timings) list \<Rightarrow> (string \<times> digraph_timings) list" where
  "push_UD digraph x m =
     modify_digraph digraph (\<lambda>d. d\<lparr>UD := UD d @ [x]\<rparr>) (ensure_digraph digraph m)"

text \<open>
  \<^verbatim>\<open>function findLastDownEvent(fromIndex) {
    for (let i = fromIndex; i >= 0; i--) {
      if (state.events[i].type === 'down') { return state.events[i]; } }
    return null; }\<close>
  \<open>lastDownFrom\<close> is the loop, \<open>None\<close> the result \<open>null\<close>. The only caller passes
  \<open>state.events.length - 2\<close> with at least two events, so the index is in range; a start
  beyond the end (where the source would throw on \<open>undefined.type\<close>) is given \<open>None\<close>.
\<close>

fun lastDownFrom :: "event list \<Rightarrow> nat \<Rightarrow> event option" where
  "lastDownFrom evs 0 = (if ev_type (evs ! 0) = Down then Some (evs ! 0) else None)"
| "lastDownFrom evs (Suc i) =
     (if ev_type (evs ! Suc i) = Down then Some (evs ! Suc i) else lastDownFrom evs i)"

definition findLastDownEvent :: "event list \<Rightarrow> nat \<Rightarrow> event option" where
  "findLastDownEvent evs fromIndex =
     (if fromIndex < length evs then lastDownFrom evs fromIndex else None)"

text \<open>
  \<^verbatim>\<open>function findNextDownEvent(fromIndex) {
    for (let i = fromIndex + 1; i < state.events.length; i++) {
      if (state.events[i].type === 'down') { return i; } }
    return -1; }\<close>
  \<open>None\<close> stands for the result \<open>-1\<close>. \<open>nextDownFrom\<close> is the loop, started at
  \<open>fromIndex + 1\<close>.
\<close>

function nextDownFrom :: "event list \<Rightarrow> nat \<Rightarrow> nat option" where
  "nextDownFrom evs i =
     (if i < length evs
      then (if ev_type (evs ! i) = Down then Some i else nextDownFrom evs (Suc i))
      else None)"
  by pat_completeness auto
termination
  by (relation "measure (\<lambda>(evs, i). length evs - i)") auto

declare nextDownFrom.simps [simp del]

definition findNextDownEvent :: "event list \<Rightarrow> nat \<Rightarrow> nat option" where
  "findNextDownEvent evs fromIndex = nextDownFrom evs (fromIndex + 1)"

text \<open>
  \<open>handleKeyDown(e)\<close>. \<open>imeChecked\<close> is \<open>els.imeToggle.checked\<close> and \<open>now\<close> is the value
  of \<open>performance.now()\<close>. An empty string is falsy, so an empty \<open>e.code\<close> or \<open>e.key\<close>
  is replaced by \<open>'Unknown'\<close>. The key-repeat test looks up the raw \<open>e.code\<close>, the table
  is written under the sanitized code, and the digraph is keyed with the raw \<open>e.key\<close>.
\<close>

definition handleKeyDown :: "bool \<Rightarrow> real \<Rightarrow> keyboard_event \<Rightarrow> state \<Rightarrow> state" where
  "handleKeyDown imeChecked now e s =
     (if \<not> running s then s
      else if imeChecked \<and> e_isComposing e then s
      else if keyStates s (e_code e) \<noteq> None then s
      else
        let sanitizedCode = (if e_code e \<noteq> [] then take 50 (e_code e) else ''Unknown'');
            sanitizedKey = (if e_key e \<noteq> [] then take 10 (e_key e) else ''Unknown'');
            t = now - startedAt s;
            event = \<lparr>ev_type = Down, ev_code = sanitizedCode, ev_key = sanitizedKey,
                     ev_t = t, ev_dwell = None\<rparr>;
            s1 = (if length (events s) < 10000
                  then s\<lparr>events := events s @ [event],
                         keyStates := (keyStates s)(sanitizedCode \<mapsto>
                            \<lparr>downTime = t, ks_key = sanitizedKey\<rparr>)\<rparr>
                  else s)
        in if length (events s1) \<ge> 2
           then (case findLastDownEvent (events s1) (length (events s1) - 2) of
                   None \<Rightarrow> s1
                 | Some prevDown \<Rightarrow>
                     s1\<lparr>digraphs :=
                          push_DD (ev_key prevDown @ e_key e) (t - ev_t prevDown) (digraphs s1)\<rparr>)
           else s1)"

text \<open>
  \<open>handleKeyUp(e)\<close>. A value stored in \<open>keyStates\<close> is an object, hence truthy, so
  \<^verbatim>\<open>if (!keyState) return;\<close> returns exactly when the Map has no entry for \<open>e.code\<close>.
\<close>

definition handleKeyUp :: "bool \<Rightarrow> real \<Rightarrow> keyboard_event \<Rightarrow> state \<Rightarrow> state" where
  "handleKeyUp imeChecked now e s =
     (if \<not> running s then s
      else if imeChecked \<and> e_isComposing e then s
      else case keyStates s (e_code e) of
        None \<Rightarrow> s
      | Some keyState \<Rightarrow>
          let t = now - startedAt s;
              event = \<lparr>ev_type = Up, ev_code = e_code e, ev_key = e_key e,
                       ev_t = t, ev_dwell = Some (t - downTime keyState)\<rparr>;
              s1 = s\<lparr>events := events s @ [event],
                     keyStates := (keyStates s)(e_code e := None)\<rparr>
          in case findNextDownEvent (events s1) (length (events s1) - 1) of
               None \<Rightarrow> s1
             | Some nextDownIdx \<Rightarrow>
                 let nextDown = events s1 ! nextDownIdx
                 in s1\<lparr>digraphs :=
                      push_UD (e_key e @ ev_key nextDown) (ev_t nextDown - t) (digraphs s1)\<rparr>)"

text \<open>
  \<open>startCapture()\<close>, without its DOM effects; \<open>now\<close> is \<open>performance.now()\<close>. The stored
  metrics are not reset.
\<close>

definition startCapture :: "real \<Rightarrow> state \<Rightarrow> state" where
  "startCapture now s =
     (if running s then s
      else s\<lparr>running := True, startedAt := now, events := [],
             keyStates := Map.empty, digraphs := []\<rparr>)"

text \<open>
  A captured stream: the keydown and keyup notifications of the browser in order, each with
  the clock reading at which its handler runs.
\<close>

datatype input = KeyDown keyboard_event real | KeyUp keyboard_event real

fun handle :: "bool \<Rightarrow> state \<Rightarrow> input \<Rightarrow> state" where
  "handle imeChecked s (KeyDown e now) = handleKeyDown imeChecked now e s"
| "handle imeChecked s (KeyUp e now) = handleKeyUp imeChecked now e s"

definition capture :: "bool \<Rightarrow> input list \<Rightarrow> state \<Rightarrow> state" where
  "capture imeChecked inputs s = foldl (handle imeChecked) s inputs"

section \<open>Metric extraction\<close>

text \<open>
  The characters matched by \<open>\s\<close> and removed by \<open>trim()\<close>, among the characters a
  \<open>char\<close> can hold: tab, line feed, vertical tab, form feed, carriage return, space and
  the no-break space.
\<close>

definition isWhitespace :: "char \<Rightarrow> bool" where
  "isWhitespace c \<longleftrightarrow>
     c \<in> {CHR 0x09, CHR 0x0A, CHR 0x0B, CHR 0x0C, CHR 0x0D, CHR 0x20, CHR 0xA0}"

definition trim :: "string \<Rightarrow> string" where
  "trim text = rev (dropWhile isWhitespace (rev (dropWhile isWhitespace text)))"

text \<open>
  \<open>text.split(/\s+/)\<close>: the pieces between the maximal runs of whitespace. A run at the
  start or at the end leaves an empty piece there, and the empty string splits into one
  empty piece. \<open>cur\<close> is the piece being read, \<open>inRun\<close> tells that the previous
  character was whitespace.
\<close>

fun splitPieces :: "string \<Rightarrow> bool \<Rightarrow> string \<Rightarrow> string list" where
  "splitPieces cur inRun [] = [cur]"
| "splitPieces cur inRun (c # cs) =
     (if isWhitespace c
      then (if inRun then splitPieces [] True cs else cur # splitPieces [] True cs)
      else splitPieces (cur @ [c]) False cs)"

definition split_whitespace :: "string \<Rightarrow> string list" where
  "split_whitespace text = splitPieces [] False text"

text \<open>
  \<^verbatim>\<open>function calculateWPM(text, durationMs) {
    const words = text.trim().split(/\s+/).length;
    const minutes = durationMs / 60000;
    return minutes > 0 ? Math.round(words / minutes) : 0; }\<close>
\<close>

definition calculateWPM :: "string \<Rightarrow> real \<Rightarrow> int" where
  "calculateWPM text durationMs =
     (let words = length (split_whitespace (trim text));
          minutes = durationMs / 60000
      in if minutes > 0 then Math_round (real words / minutes) else 0)"

text \<open>
  The flight-time loop of \<open>calculateMetrics\<close>: for every index \<open>i\<close> below
  \<open>events.length - 1\<close> that holds an \<open>'up'\<close> event, the first \<open>'down'\<close> event
  after it (the inner loop with its \<open>break\<close> is the search \<open>nextDownFrom\<close>) gives one
  sample.
\<close>

definition flightTimesOf :: "event list \<Rightarrow> real list" where
  "flightTimesOf evs =
     concat (map (\<lambda>i. if ev_type (evs ! i) = Up
                        then (case nextDownFrom evs (i + 1) of
                                None \<Rightarrow> []
                              | Some j \<Rightarrow> [ev_t (evs ! j) - ev_t (evs ! i)])
                        else [])
                 [0 ..< length evs - 1])"

definition ddTimesOf :: "event list \<Rightarrow> real list" where
  "ddTimesOf downEvents =
     map (\<lambda>i. ev_t (downEvents ! (i + 1)) - ev_t (downEvents ! i)) [0 ..< length downEvents - 1]"

text \<open>
  \<open>calculateMetrics()\<close>; \<open>editorValue\<close> is \<open>els.editor.value\<close>. With no events the
  function returns before the assignment to \<open>state.metrics\<close>.
\<close>

definition calculateMetrics :: "string \<Rightarrow> state \<Rightarrow> state" where
  "calculateMetrics editorValue s =
     (let evs = events s in
      if length evs = 0 then s
      else
        let downEvents = filter (\<lambda>e. ev_type e = Down) evs;
            upEvents = filter (\<lambda>e. ev_type e = Up) evs;
            dwells = map the (filter (\<lambda>d. d \<noteq> None) (map ev_dwell upEvents));
            flights = flightTimesOf evs;
            dds = ddTimesOf downEvents
        in s\<lparr>metrics := Some
              \<lparr>totalKeys = length downEvents,
               duration = ev_t (evs ! (length evs - 1)),
               avgDwell = average dwells,
               stdDwell = standardDeviation dwells,
               avgFlight = average flights,
               stdFlight = standardDeviation flights,
               avgDD = average dds,
               stdDD = standardDeviation dds,
               wpm = calculateWPM editorValue (ev_t (evs ! (length evs - 1))),
               dwellTimes = dwells,
               flightTimes = flights,
               ddTimes = dds\<rparr>\<rparr>)"

text \<open>
  \<open>stopCapture()\<close> and \<open>clearAll()\<close>, without their effects on the page: stopping
  computes the metrics of the captured events, clearing stores the field-less object.
\<close>

definition stopCapture :: "string \<Rightarrow> state \<Rightarrow> state" where
  "stopCapture editorValue s =
     (if \<not> running s then s
      else calculateMetrics editorValue (s\<lparr>running := False\<rparr>))"

definition clearAll :: "state \<Rightarrow> state" where
  "clearAll s =
     s\<lparr>running := False, events := [], metrics := None,
       keyStates := Map.empty, digraphs := []\<rparr>"

text \<open>The summary whose fields are all zero, with no samples.\<close>

definition zero_metrics :: metrics where
  "zero_metrics =
     \<lparr>totalKeys = 0, duration = 0, avgDwell = 0, stdDwell = 0, avgFlight = 0, stdFlight = 0,
      avgDD = 0, stdDD = 0, wpm = 0, dwellTimes = [], flightTimes = [], ddTimes = []\<rparr>"

section \<open>Scoring\<close>

text \<open>The table \<open>benchmarks\<close> of \<open>analyzeKeystrokePattern\<close>.\<close>

record benchmarks =
  wpm_beginner :: real
  wpm_average :: real
  wpm_expert :: real
  dwellTime_fast :: real
  dwellTime_average :: real
  dwellTime_slow :: real
  flightTime_fast :: real
  flightTime_average :: real
  flightTime_slow :: real
  stability_unstable :: real
  stability_stable :: real
  stability_veryStable :: real

definition benchmarks :: benchmarks where
  "benchmarks =
     \<lparr>wpm_beginner = 20, wpm_average = 35, wpm_expert = 60,
      dwellTime_fast = 80, dwellTime_average = 120, dwellTime_slow = 180,
      flightTime_fast = 120, flightTime_average = 180, flightTime_slow = 250,
      stability_unstable = 50, stability_stable = 70, stability_veryStable = 85\<rparr>"

text \<open>
  The variable \<open>identifiabilityScore\<close> of \<open>generateDetailedSummary\<close> at the end of its
  three checks (the text appended to \<open>summary\<close> on the way is left out).
\<close>

definition identifiabilityScore :: "benchmarks \<Rightarrow> metrics \<Rightarrow> real \<Rightarrow> int \<Rightarrow> int" where
  "identifiabilityScore b m stability uniqueness =
     (let score0 = 0;
          score1 = (if stability \<ge> 70 \<and> stability \<le> 85 then score0 + 3
                    else if stability > 85 then score0 + 1
                    else if stability < 50 then score0 + 1
                    else score0 + 2);
          score2 = (if uniqueness \<ge> 60 then score1 + 3
                    else if uniqueness \<ge> 40 then score1 + 2
                    else score1 + 1);
          dwellUniqueness =
            js_div \<bar>avgDwell m - dwellTime_average b\<bar> (dwellTime_average b);
          flightUniqueness =
            js_div \<bar>avgFlight m - flightTime_average b\<bar> (flightTime_average b)
      in if js_greater dwellUniqueness 0.3 \<or> js_greater flightUniqueness 0.3 then score2 + 2
         else if js_greater dwellUniqueness 0.15 \<or> js_greater flightUniqueness 0.15
         then score2 + 1
         else score2)"

text \<open>
  The three branches on the score that set \<open>spoofingResistance\<close>,
  \<open>recommendedSecurity\<close> and the recommended measures: high, medium and low security level.
\<close>

datatype tier = High | Medium | Low

definition securityLevel :: "int \<Rightarrow> tier" where
  "securityLevel score =
     (if score \<ge> 7 then High else if score \<ge> 5 then Medium else Low)"

text \<open>The three bucket contributions and the deviation, in the specification's words.\<close>

definition stability_bucket :: "real \<Rightarrow> int" where
  "stability_bucket stability =
     (if 70 \<le> stability \<and> stability \<le> 85 then 3
      else if stability > 85 \<or> stability < 50 then 1
      else 2)"

definition uniqueness_bucket :: "int \<Rightarrow> int" where
  "uniqueness_bucket uniqueness =
     (if uniqueness \<ge> 60 then 3
      else if 40 \<le> uniqueness \<and> uniqueness < 60 then 2
      else 1)"

definition timing_bucket :: "real \<Rightarrow> real \<Rightarrow> int" where
  "timing_bucket dwellDev flightDev =
     (if dwellDev > 0.3 \<or> flightDev > 0.3 then 2
      else if dwellDev > 0.15 \<or> flightDev > 0.15 then 1
      else 0)"

text \<open>
  The digraph loop of \<open>analyzeKeystrokePattern\<close>. \<open>topDigraph\<close> is \<open>None\<close> for its
  initial placeholder. The coefficient of variation \<open>(std / avgTime) * 100\<close> has no guard
  for a zero mean.
\<close>

record digraphAnalysis =
  fast :: "string list"
  slow :: "string list"
  consistent :: "string list"
  variable :: "string list"
  topDigraph :: "string option"
  maxCount :: nat

definition digraph_avgTime :: "real list \<Rightarrow> real" where
  "digraph_avgTime dd = foldl (\<lambda>a b. a + b) 0 dd / real (length dd)"

definition digraph_cv :: "real list \<Rightarrow> jsnum" where
  "digraph_cv dd = js_times (js_div (standardDeviation dd) (digraph_avgTime dd)) 100"

definition classifyDigraph ::
  "digraphAnalysis \<Rightarrow> string \<times> digraph_timings \<Rightarrow> digraphAnalysis" where
  "classifyDigraph a entry =
     (let digraph = fst entry; data = snd entry;
          a0 = (if length (DD data) > maxCount a
                then a\<lparr>maxCount := length (DD data), topDigraph := Some digraph\<rparr>
                else a)
      in if length (DD data) \<ge> 2
         then
           let avgTime = digraph_avgTime (DD data);
               cv = digraph_cv (DD data);
               a1 = (if avgTime < 200 then a0\<lparr>fast := fast a0 @ [digraph]\<rparr> else a0);
               a2 = (if avgTime > 400 then a1\<lparr>slow := slow a1 @ [digraph]\<rparr> else a1);
               a3 = (if js_less cv 20 then a2\<lparr>consistent := consistent a2 @ [digraph]\<rparr> else a2);
               a4 = (if js_greater cv 40 then a3\<lparr>variable := variable a3 @ [digraph]\<rparr> else a3)
           in a4
         else a0)"

definition analyzeDigraphs :: "(string \<times> digraph_timings) list \<Rightarrow> digraphAnalysis" where
  "analyzeDigraphs dgs =
     (let init = \<lparr>fast = [], slow = [], consistent = [], variable = [],
                  topDigraph = None, maxCount = 0\<rparr>
      in if length dgs > 0 then foldl classifyDigraph init dgs else init)"

section \<open>Profile comparison\<close>

text \<open>
  \<^verbatim>\<open>function calculateSimilarity(m1, m2) {
    const features1 = [m1.avgDwell, m1.avgFlight, m1.avgDD];
    const features2 = [m2.avgDwell, m2.avgFlight, m2.avgDD];
    const dotProduct = features1.reduce((sum, val, i) => sum + val * features2[i], 0);
    const mag1 = Math.sqrt(features1.reduce((sum, val) => sum + val * val, 0));
    const mag2 = Math.sqrt(features2.reduce((sum, val) => sum + val * val, 0));
    return dotProduct / (mag1 * mag2); }\<close>
  The fields of a summary are finite numbers; every operation is the binary64 one.
\<close>

definition calculateSimilarity :: "metrics \<Rightarrow> metrics \<Rightarrow> jsnum" where
  "calculateSimilarity m1 m2 =
     (let features1 = [avgDwell m1, avgFlight m1, avgDD m1];
          features2 = [avgDwell m2, avgFlight m2, avgDD m2];
          dotProduct =
            foldl (\<lambda>sum (val, i). fl_add sum (fl_mul (Fin val) (Fin (features2 ! i))))
              (Fin 0) (zip features1 [0 ..< length features1]);
          mag1 = fl_sqrt (foldl (\<lambda>sum val. fl_add sum (fl_mul (Fin val) (Fin val)))
                            (Fin 0) features1);
          mag2 = fl_sqrt (foldl (\<lambda>sum val. fl_add sum (fl_mul (Fin val) (Fin val)))
                            (Fin 0) features2)
      in fl_div dotProduct (fl_mul mag1 mag2))"

text \<open>The value of the two reductions when a feature vector meets itself.\<close>

definition sum_squares :: "real \<Rightarrow> real \<Rightarrow> real \<Rightarrow> jsnum" where
  "sum_squares a b c =
     fl_add (fl_add (fl_add (Fin 0) (fl_mul (Fin a) (Fin a))) (fl_mul (Fin b) (Fin b)))
       (fl_mul (Fin c) (Fin c))"

section \<open>Profile import\<close>

text \<open>
  Values produced by \<open>JSON.parse\<close>. An object is the list of its members, keys distinct.
\<close>

datatype json =
    JNull
  | JBool bool
  | JNum real
  | JStr string
  | JArr "json list"
  | JObj "(string \<times> json) list"

text \<open>What a handler finds: nothing, a text that \<open>JSON.parse\<close> rejects, or a parsed value.\<close>

datatype source_text = Absent | Unparsable | Parsed json

datatype alert = Imported nat | InvalidFormat | ImportFailed

text \<open>
  \<open>handleFileImport(e)\<close> with the \<open>onload\<close> callback of its reader, on the profile list
  \<open>state.profiles\<close>:
  \<^verbatim>\<open>const imported = JSON.parse(event.target.result);
  if (Array.isArray(imported)) {
    state.profiles = [...state.profiles, ...imported];
    saveProfiles();
    alert(`Imported ${imported.length} profiles!`); ...
  } else { alert('Invalid profile format'); }\<close>
  The result is the new profile list and the message shown, if any.
\<close>

definition handleFileImport :: "source_text \<Rightarrow> json list \<Rightarrow> json list \<times> alert option" where
  "handleFileImport file profiles =
     (case file of
        Absent \<Rightarrow> (profiles, None)
      | Unparsable \<Rightarrow> (profiles, Some ImportFailed)
      | Parsed (JArr imported) \<Rightarrow> (profiles @ imported, Some (Imported (length imported)))
      | Parsed _ \<Rightarrow> (profiles, Some InvalidFormat))"

text \<open>JavaScript truthiness of a parsed value, and of a property that may be missing.\<close>

fun truthy :: "json \<Rightarrow> bool" where
  "truthy JNull = False"
| "truthy (JBool b) = b"
| "truthy (JNum x) = (x \<noteq> 0)"
| "truthy (JStr str) = (str \<noteq> [])"
| "truthy (JArr _) = True"
| "truthy (JObj _) = True"

fun typeof_object :: "json \<Rightarrow> bool" where
  "typeof_object JNull = True"
| "typeof_object (JArr _) = True"
| "typeof_object (JObj _) = True"
| "typeof_object _ = False"

text \<open>
  Reading the property \<open>name\<close>, \<open>timestamp\<close> or \<open>metrics\<close> of a non-null value;
  \<open>None\<close> is \<open>undefined\<close>. Only an object can have such a member.
\<close>

fun property :: "json \<Rightarrow> string \<Rightarrow> json option" where
  "property (JObj members) k = map_of members k"
| "property _ k = None"

text \<open>
  The filter of \<open>loadProfiles\<close>, the other way profiles enter \<open>state.profiles\<close>:
  \<^verbatim>\<open>profile && typeof profile === 'object' && typeof profile.name === 'string' &&
  profile.name.length <= 100 && profile.timestamp && profile.metrics &&
  typeof profile.metrics === 'object'\<close>
\<close>

definition validProfile :: "json \<Rightarrow> bool" where
  "validProfile profile \<longleftrightarrow>
     truthy profile \<and> typeof_object profile \<and>
     (case property profile ''name'' of Some (JStr n) \<Rightarrow> length n \<le> 100 | _ \<Rightarrow> False) \<and>
     (case property profile ''timestamp'' of Some v \<Rightarrow> truthy v | None \<Rightarrow> False) \<and>
     (case property profile ''metrics'' of
        Some v \<Rightarrow> truthy v \<and> typeof_object v | None \<Rightarrow> False)"

text \<open>
  \<open>loadProfiles()\<close>; the argument is the item stored in \<open>localStorage\<close>. A missing item
  leaves the list as it is; a text that does not parse, or that is not an array, empties it.
\<close>

definition loadProfiles :: "source_text \<Rightarrow> json list \<Rightarrow> json list" where
  "loadProfiles saved profiles =
     (case saved of
        Absent \<Rightarrow> profiles
      | Unparsable \<Rightarrow> []
      | Parsed (JArr parsed) \<Rightarrow> take 50 (filter validProfile parsed)
      | Parsed _ \<Rightarrow> [])"

section \<open>Example inputs\<close>

text \<open>The keys A, B, S and D as the browser reports them.\<close>

definition key_a :: keyboard_event where
  "key_a = \<lparr>e_code = ''KeyA'', e_key = ''a'', e_isComposing = False\<rparr>"

definition key_b :: keyboard_event where
  "key_b = \<lparr>e_code = ''KeyB'', e_key = ''b'', e_isComposing = False\<rparr>"

definition key_s :: keyboard_event where
  "key_s = \<lparr>e_code = ''KeyS'', e_key = ''s'', e_isComposing = False\<rparr>"

definition key_d :: keyboard_event where
  "key_d = \<lparr>e_code = ''KeyD'', e_key = ''d'', e_isComposing = False\<rparr>"

text \<open>
  The summary of a session in which one key went down 12 ms after the start and capture
  was stopped before it came up, with the text \<open>a\<close> in the editor.
\<close>

definition single_press_metrics :: metrics where
  "single_press_metrics =
     \<lparr>totalKeys = 1, duration = 12, avgDwell = 0, stdDwell = 0, avgFlight = 0, stdFlight = 0,
      avgDD = 0, stdDD = 0, wpm = 5000, dwellTimes = [], flightTimes = [], ddTimes = []\<rparr>"

text \<open>A serialized profile with every field, and the same record without \<open>timestamp\<close>.\<close>

definition profile_complete :: json where
  "profile_complete =
     JObj [(''name'', JStr ''alice''), (''timestamp'', JNum 1700000000000),
           (''metrics'', JObj [(''totalKeys'', JNum 3), (''avgDwell'', JNum 100),
                               (''avgFlight'', JNum 150), (''avgDD'', JNum 250)]),
           (''digraphs'', JArr []), (''text'', JStr ''abc'')]"

definition profile_no_timestamp :: json where
  "profile_no_timestamp =
     JObj [(''name'', JStr ''bob''),
           (''metrics'', JObj [(''totalKeys'', JNum 3), (''avgDwell'', JNum 90),
                               (''avgFlight'', JNum 140), (''avgDD'', JNum 230)]),
           (''digraphs'', JArr []), (''text'', JStr ''abc'')]"

text \<open>
  The digraphs of a session in which \<open>a\<close> and \<open>b\<close> are pressed together twice, each
  time within one reading of the clock, 500 ms apart.
\<close>

definition chord_digraphs :: "(string \<times> digraph_timings) list" where
  "chord_digraphs =
     [(''ab'', \<lparr>DD = [0, 0], UD = [], DU = [], UU = []\<rparr>),
      (''ba'', \<lparr>DD = [500], UD = [], DU = [], UU = []\<rparr>)]"

text \<open>Four digraphs with two samples or more, one of them all zeros, and one with a single sample.\<close>

definition sample_digraphs :: "(string \<times> digraph_timings) list" where
  "sample_digraphs =
     [(''th'', \<lparr>DD = [100, 100], UD = [], DU = [], UU = []\<rparr>),
      (''he'', \<lparr>DD = [500], UD = [], DU = [], UU = []\<rparr>),
      (''qu'', \<lparr>DD = [1, 3], UD = [], DU = [], UU = []\<rparr>),
      (''zz'', \<lparr>DD = [500, 500], UD = [], DU = [], UU = []\<rparr>),
      (''aa'', \<lparr>DD = [0, 0], UD = [], DU = [], UU = []\<rparr>)]"

section \<open>Properties of the statistics helpers\<close>

lemma reduce_plus: "foldl (\<lambda>a b. a + b) (s::real) xs = s + sum_list xs"
  by (induction xs arbitrary: s) simp_all

lemma average_nonempty: "arr \<noteq> [] \<Longrightarrow> average arr = sum_list arr / real (length arr)"
  by (simp add: average_def reduce_plus)

text \<open>
  Claim C7. The mean is the arithmetic average and the standard deviation is the population
  standard deviation: the square root of the sum of squared deviations from the mean divided
  by the number of samples N (not N - 1). For the empty list both are exactly 0.
\<close>

theorem average_standardDeviation_population:
  "average [] = 0 \<and> standardDeviation [] = 0 \<and>
   (xs \<noteq> [] \<longrightarrow>
      average xs = sum_list xs / real (length xs) \<and>
      standardDeviation xs =
        sqrt ((\<Sum>x\<leftarrow>xs. (x - sum_list xs / real (length xs)) ^ 2) / real (length xs)))"
proof -
  have e: "average [] = 0" "standardDeviation [] = 0"
    by (simp_all add: average_def standardDeviation_def)
  have n: "average xs = sum_list xs / real (length xs) \<and>
      standardDeviation xs =
        sqrt ((\<Sum>x\<leftarrow>xs. (x - sum_list xs / real (length xs)) ^ 2) / real (length xs))"
    if ne: "xs \<noteq> []"
  proof -
    have a: "average xs = sum_list xs / real (length xs)"
      using ne by (rule average_nonempty)
    have m: "map (\<lambda>value. (value - average xs) ^ 2) xs \<noteq> []"
      using ne by simp
    have "standardDeviation xs = sqrt (average (map (\<lambda>value. (value - average xs) ^ 2) xs))"
      using ne by (simp add: standardDeviation_def)
    also have "\<dots> = sqrt ((\<Sum>x\<leftarrow>xs. (x - average xs) ^ 2) / real (length xs))"
      using average_nonempty [OF m] by simp
    finally show ?thesis using a by simp
  qed
  show ?thesis using e n by blast
qed

theorem average_standardDeviation_population_witness:
  "[2, 4, 4, 4, 5, 5, 7, 9] \<noteq> ([]::real list) \<and>
   average [2, 4, 4, 4, 5, 5, 7, 9] = 5 \<and>
   standardDeviation [2, 4, 4, 4, 5, 5, 7, 9] = 2"
  using average_standardDeviation_population [of "[2, 4, 4, 4, 5, 5, 7, 9]"]
  by simp

section \<open>Properties of the keyup handler\<close>

text \<open>
  Claim C10. A keyup whose \<open>code\<close> has no entry in the key-state table (no open press)
  is a no-op: the handler returns the capture state it was given, so no event is appended,
  no dwell sample is produced, no digraph sample is added and nothing else changes.
\<close>

theorem handleKeyUp_without_open_press:
  "keyStates s (e_code e) = None \<Longrightarrow> handleKeyUp imeChecked now e s = s"
  by (simp add: handleKeyUp_def)

theorem handleKeyUp_without_open_press_witness:
  "keyStates (startCapture 1000 initial_state) (e_code key_a) = None \<and>
   handleKeyUp False 1100 key_a (startCapture 1000 initial_state) = startCapture 1000 initial_state"
proof -
  have h: "keyStates (startCapture 1000 initial_state) (e_code key_a) = None"
    by (simp add: startCapture_def initial_state_def)
  show ?thesis using h handleKeyUp_without_open_press [OF h] by simp
qed

section \<open>Properties of the digraph accumulator\<close>

text \<open>
  The keyup handler searches for the next \<open>'down'\<close> event from the index of the event it
  has just pushed, which is the last one: the search starts past the end and finds nothing.
\<close>

lemma nextDownFrom_past_end: "length evs \<le> i \<Longrightarrow> nextDownFrom evs i = None"
  by (simp add: nextDownFrom.simps)

lemma findNextDownEvent_last:
  "evs \<noteq> [] \<Longrightarrow> findNextDownEvent evs (length evs - 1) = None"
  unfolding findNextDownEvent_def by (rule nextDownFrom_past_end) (cases evs; simp)

lemma handleKeyUp_digraphs: "digraphs (handleKeyUp imeChecked now e s) = digraphs s"
proof (cases "keyStates s (e_code e)")
  case None
  then show ?thesis by (simp add: handleKeyUp_def)
next
  case (Some keyState)
  have "findNextDownEvent (events s @ [ev]) (length (events s @ [ev]) - 1) = None" for ev
    by (rule findNextDownEvent_last) simp
  then show ?thesis using Some by (simp add: handleKeyUp_def Let_def)
qed

text \<open>Hence no handler ever puts a sample into a \<open>UD\<close> list, whatever the stream.\<close>

lemma modify_DD_keeps_UD:
  "list_all (\<lambda>p. UD (snd p) = []) m \<Longrightarrow>
   list_all (\<lambda>p. UD (snd p) = []) (modify_digraph k (\<lambda>d. d\<lparr>DD := DD d @ [x]\<rparr>) m)"
  by (induction m) auto

lemma push_DD_keeps_UD:
  "list_all (\<lambda>p. UD (snd p) = []) m \<Longrightarrow> list_all (\<lambda>p. UD (snd p) = []) (push_DD k x m)"
  unfolding push_DD_def by (rule modify_DD_keeps_UD) (simp add: ensure_digraph_def)

lemma handleKeyDown_keeps_UD:
  "list_all (\<lambda>p. UD (snd p) = []) (digraphs s) \<Longrightarrow>
   list_all (\<lambda>p. UD (snd p) = []) (digraphs (handleKeyDown imeChecked now e s))"
  by (auto simp: handleKeyDown_def Let_def push_DD_keeps_UD split: option.splits)

lemma handle_keeps_UD:
  "list_all (\<lambda>p. UD (snd p) = []) (digraphs s) \<Longrightarrow>
   list_all (\<lambda>p. UD (snd p) = []) (digraphs (handle imeChecked s i))"
  by (cases i) (simp_all add: handleKeyDown_keeps_UD handleKeyUp_digraphs)

lemma capture_keeps_UD:
  "list_all (\<lambda>p. UD (snd p) = []) (digraphs s) \<Longrightarrow>
   list_all (\<lambda>p. UD (snd p) = []) (digraphs (capture imeChecked inputs s))"
  unfolding capture_def by (induction inputs arbitrary: s) (simp_all add: handle_keeps_UD)

lemma capture_from_start_has_no_UD:
  "list_all (\<lambda>p. UD (snd p) = [])
     (digraphs (capture imeChecked inputs (startCapture now initial_state)))"
  by (rule capture_keeps_UD) (simp add: startCapture_def initial_state_def)

text \<open>
  Claim C1. A release followed later by a press should append
  \<open>nextPress.t - release.t\<close> to the \<open>UD\<close> list of the digraph keyed by the two key
  identifiers, leaving some \<open>UD\<close> list non-empty. On the stream press \<open>a\<close> at 0 ms,
  release \<open>a\<close> at 100 ms, press \<open>b\<close> at 250 ms the accumulator holds the one digraph
  \<open>ab\<close> with its down-down sample 250 and an empty \<open>UD\<close> list: the sample 150 is missing.
\<close>

theorem capture_release_then_press_UD_empty:
  "digraphs (capture False [KeyDown key_a 1000, KeyUp key_a 1100, KeyDown key_b 1250]
      (startCapture 1000 initial_state))
   = [(''ab'', \<lparr>DD = [250], UD = [], DU = [], UU = []\<rparr>)]"
  by (simp add: capture_def startCapture_def initial_state_def handleKeyDown_def
      handleKeyUp_def key_a_def key_b_def findNextDownEvent_def nextDownFrom.simps
      findLastDownEvent_def push_DD_def ensure_digraph_def Let_def)

text \<open>
  The same on the stream press \<open>a\<close> at 0, press \<open>s\<close> at 100, release \<open>a\<close> at 120,
  release \<open>s\<close> at 210, press \<open>d\<close> at 300: the down-down samples 100 and 200 are
  recorded, the up-down samples 180 (for \<open>ad\<close>) and 90 (for \<open>sd\<close>) are not.
\<close>

lemma capture_overlapping_presses_UD_empty:
  "digraphs (capture False
      [KeyDown key_a 0, KeyDown key_s 100, KeyUp key_a 120, KeyUp key_s 210, KeyDown key_d 300]
      (startCapture 0 initial_state))
   = [(''as'', \<lparr>DD = [100], UD = [], DU = [], UU = []\<rparr>),
      (''sd'', \<lparr>DD = [200], UD = [], DU = [], UU = []\<rparr>)]"
  by (simp add: capture_def startCapture_def initial_state_def handleKeyDown_def
      handleKeyUp_def key_a_def key_s_def key_d_def findNextDownEvent_def nextDownFrom.simps
      findLastDownEvent_def push_DD_def ensure_digraph_def Let_def)

section \<open>Properties of metric extraction\<close>

text \<open>
  Claim C4, as amended. Metric extraction on an empty event stream is not an error, and it
  produces no summary: it returns at once and leaves the state, with the stored metrics,
  exactly as it was. From a cleared state the stored metrics stay the field-less object,
  which is not a summary of zeros.
\<close>

theorem calculateMetrics_no_events:
  "(events s = [] \<longrightarrow> calculateMetrics editorValue s = s) \<and>
   metrics (calculateMetrics editorValue (clearAll s)) = None"
  by (simp add: calculateMetrics_def clearAll_def)

theorem calculateMetrics_no_events_witness:
  "events initial_state = [] \<and> calculateMetrics ''abc'' initial_state = initial_state \<and>
   metrics (calculateMetrics ''abc'' (clearAll initial_state)) = None"
proof -
  have h: "events initial_state = []"
    by (simp add: initial_state_def)
  show ?thesis using h calculateMetrics_no_events [of initial_state "''abc''"] by simp
qed

text \<open>
  The claim as stated fails on a session that is started and stopped with no key pressed:
  no summary is stored, where the claim expects the summary of zeros.
\<close>

theorem calculateMetrics_no_events_counterexample:
  "events (startCapture 1000 initial_state) = [] \<and>
   metrics (stopCapture [] (startCapture 1000 initial_state)) = None \<and>
   metrics (stopCapture [] (startCapture 1000 initial_state)) \<noteq> Some zero_metrics"
  by (simp add: stopCapture_def calculateMetrics_def startCapture_def initial_state_def)

text \<open>
  Claim C6. The word count of an empty or all-whitespace text should be 0, and so its
  words-per-minute. The code counts the pieces of the trimmed text, and the empty string
  splits into one (empty) piece: for a session of one minute with nothing typed it reports 1,
  for one second it reports 60.
\<close>

theorem calculateWPM_empty_text:
  "calculateWPM [] 60000 = 1 \<and> calculateWPM '' '' 1000 = 60"
  by (simp add: calculateWPM_def trim_def split_whitespace_def Math_round_def isWhitespace_def)

text \<open>What the code does elsewhere agrees with the formula: a non-positive duration gives 0.\<close>

lemma calculateWPM_nonpositive_duration: "durationMs \<le> 0 \<Longrightarrow> calculateWPM text durationMs = 0"
  by (simp add: calculateWPM_def Let_def)

lemma calculateWPM_three_words: "calculateWPM ''the  quick brown '' 60000 = 3"
  by (simp add: calculateWPM_def trim_def split_whitespace_def Math_round_def isWhitespace_def)

section \<open>Properties of binary64 rounding\<close>

text \<open>
  Rounding moves a number by at most half a unit in the last place: in the normal range the
  relative error is at most 2 to the power \<open>-53\<close>.
\<close>

lemma round_half_even_near: "\<bar>of_int (round_half_even y) - y\<bar> \<le> 1 / 2"
  unfolding round_half_even_def Let_def by (auto; linarith)

lemma round_half_even_small: "\<bar>z\<bar> < 1 / 2 \<Longrightarrow> round_half_even z = 0"
proof (cases "0 \<le> z")
  case True
  assume "\<bar>z\<bar> < 1 / 2"
  with True have "\<lfloor>z\<rfloor> = 0" by (simp add: floor_eq_iff)
  with \<open>\<bar>z\<bar> < 1 / 2\<close> True show ?thesis by (simp add: round_half_even_def)
next
  case False
  assume "\<bar>z\<bar> < 1 / 2"
  with False have "\<lfloor>z\<rfloor> = - 1" by (simp add: floor_eq_iff)
  with \<open>\<bar>z\<bar> < 1 / 2\<close> False show ?thesis by (simp add: round_half_even_def)
qed

lemma rnd_Fin:
  "\<bar>x\<bar> < 2 ^ 1024 \<Longrightarrow>
   \<bar>of_int (round_half_even (x / ulp_of x)) * ulp_of x\<bar> < 2 ^ 1024 \<Longrightarrow>
   rnd x = Fin (of_int (round_half_even (x / ulp_of x)) * ulp_of x)"
  by (simp add: rnd_def Let_def not_le del: power_numeral)

lemma rnd_overflow: "x \<ge> 2 ^ 1024 \<Longrightarrow> rnd x = PosInf"
  by (simp add: rnd_def del: power_numeral) (smt (verit) zero_less_power)

lemma rnd_underflow:
  assumes a: "\<bar>x\<bar> < 1 / 2 ^ 1075"
  shows "rnd x = Fin 0"
proof -
  have "(1::real) / 2 ^ 1075 < 1 / 2 ^ 1022" by simp
  then have u: "ulp_of x = 1 / 2 ^ 1074"
    using a by (simp add: ulp_of_def del: power_numeral)
  have "\<bar>x / ulp_of x\<bar> < 1 / 2"
  proof -
    have "\<bar>x / ulp_of x\<bar> = \<bar>x\<bar> * 2 ^ 1074"
      unfolding u by (simp add: abs_mult del: power_numeral)
    also have "\<dots> < (1 / 2 ^ 1075) * 2 ^ 1074"
      using a by (rule mult_strict_right_mono) simp
    also have "\<dots> = 1 / 2" by simp
    finally show ?thesis .
  qed
  then have z: "round_half_even (x / ulp_of x) = 0"
    by (rule round_half_even_small)
  have "(1::real) / 2 ^ 1075 < 2 ^ 1024" by simp
  then have "\<bar>x\<bar> < 2 ^ 1024" using a by linarith
  then have "rnd x = Fin (of_int (round_half_even (x / ulp_of x)) * ulp_of x)"
    by (rule rnd_Fin) (simp add: z)
  then show ?thesis by (simp add: z)
qed

lemma rnd_zero: "rnd 0 = Fin 0"
  by (rule rnd_underflow) simp

lemma ulp_normal:
  assumes "1 / 2 ^ 1022 \<le> \<bar>x\<bar>"
  shows "0 < ulp_of x" "ulp_of x \<le> \<bar>x\<bar> / 2 ^ 52"
proof -
  have pos: "0 < \<bar>x\<bar>" using assms by (smt (verit) divide_pos_pos zero_less_power)
  define e where "e = \<lfloor>log 2 \<bar>x\<bar>\<rfloor>"
  have u: "ulp_of x = 2 powr (of_int e - 52)" using assms by (simp add: ulp_of_def e_def)
  show "0 < ulp_of x" unfolding u by simp
  have "2 powr (of_int e) \<le> \<bar>x\<bar>"
    using floor_log_eq_powr_iff [of "\<bar>x\<bar>" 2 e] pos e_def by simp
  moreover have "(2::real) powr (of_int e - 52) = 2 powr (of_int e) / 2 ^ 52"
    by (simp add: powr_diff)
  ultimately show "ulp_of x \<le> \<bar>x\<bar> / 2 ^ 52"
    unfolding u by (simp add: divide_right_mono)
qed

lemma rnd_normal:
  assumes lo: "1 / 2 ^ 1022 \<le> \<bar>x\<bar>" and hi: "\<bar>x\<bar> \<le> 2 ^ 1023"
  shows "\<exists>y. rnd x = Fin y \<and> \<bar>y - x\<bar> \<le> \<bar>x\<bar> / 2 ^ 53"
proof -
  define u where "u = ulp_of x"
  define y where "y = of_int (round_half_even (x / u)) * u"
  have up: "0 < u" and ub: "u \<le> \<bar>x\<bar> / 2 ^ 52"
    using ulp_normal [OF lo] by (simp_all add: u_def)
  have "\<bar>y - x\<bar> = \<bar>of_int (round_half_even (x / u)) - x / u\<bar> * u"
  proof -
    have "y - x = (of_int (round_half_even (x / u)) - x / u) * u"
      using up by (simp add: y_def field_simps)
    then show ?thesis using up by (simp add: abs_mult)
  qed
  also have "\<dots> \<le> (1 / 2) * u"
    using round_half_even_near [of "x / u"] up by (simp add: mult_right_mono)
  also have "\<dots> \<le> (1 / 2) * (\<bar>x\<bar> / 2 ^ 52)"
    using ub by simp
  also have "\<dots> = \<bar>x\<bar> / 2 ^ 53" by simp
  finally have err: "\<bar>y - x\<bar> \<le> \<bar>x\<bar> / 2 ^ 53" .
  have "\<bar>y\<bar> \<le> \<bar>x\<bar> + \<bar>x\<bar> / 2 ^ 53" using err by linarith
  also have "\<dots> \<le> 2 ^ 1023 + 2 ^ 1023 / 2 ^ 53"
    using hi by (simp add: add_mono divide_right_mono del: power_numeral)
  also have "\<dots> < (2::real) ^ 1024" by simp
  finally have ylt: "\<bar>y\<bar> < 2 ^ 1024" .
  have xlt: "\<bar>x\<bar> < 2 ^ 1024"
  proof -
    have "(2::real) ^ 1023 < 2 ^ 1024" by simp
    then show ?thesis using hi by linarith
  qed
  have "rnd x = Fin y"
    unfolding y_def u_def using xlt ylt [unfolded y_def u_def] by (rule rnd_Fin)
  then show ?thesis using err by blast
qed

lemma rnd_pos:
  assumes lo: "1 / 2 ^ 1022 \<le> x" and hi: "x \<le> 2 ^ 1023"
  shows "\<exists>y. rnd x = Fin y \<and> x * (1 - 1 / 2 ^ 53) \<le> y \<and> y \<le> x * (1 + 1 / 2 ^ 53)"
proof -
  have "(0::real) < 1 / 2 ^ 1022" by simp
  then have pos: "0 < x" using lo by linarith
  then have ax: "\<bar>x\<bar> = x" by simp
  obtain y where y: "rnd x = Fin y" and e: "\<bar>y - x\<bar> \<le> \<bar>x\<bar> / 2 ^ 53"
    using rnd_normal [of x] lo hi ax by auto
  have d: "x * (1 - 1 / 2 ^ 53) = x - x / 2 ^ 53" "x * (1 + 1 / 2 ^ 53) = x + x / 2 ^ 53"
    by (simp_all add: algebra_simps)
  have "x - x / 2 ^ 53 \<le> y" "y \<le> x + x / 2 ^ 53"
    using e unfolding ax by linarith+
  then have "x * (1 - 1 / 2 ^ 53) \<le> y \<and> y \<le> x * (1 + 1 / 2 ^ 53)"
    by (simp only: d)
  with y show ?thesis by blast
qed

lemma rnd_pos_coarse:
  assumes lo: "1 / 2 ^ 1022 \<le> x" and hi: "x \<le> 2 ^ 1023"
  shows "\<exists>y. rnd x = Fin y \<and> x \<le> 2 * y \<and> y \<le> 2 * x"
proof -
  have "(0::real) < 1 / 2 ^ 1022" by simp
  then have pos: "0 < x" using lo by linarith
  obtain y where y: "rnd x = Fin y" and b: "x * (1 - 1 / 2 ^ 53) \<le> y" "y \<le> x * (1 + 1 / 2 ^ 53)"
    using rnd_pos [OF lo hi] by auto
  have "x / 2 \<le> x * (1 - 1 / 2 ^ 53)"
    using pos by simp
  moreover have "x * (1 + 1 / 2 ^ 53) \<le> 2 * x"
    using pos by simp
  ultimately have "x \<le> 2 * y" "y \<le> 2 * x" using b by linarith+
  with y show ?thesis by blast
qed

lemma add_range:
  assumes "0 \<le> s" "0 \<le> p" "s + p = 0 \<or> 1 / 2 ^ 1022 \<le> s + p" "s + p \<le> 2 ^ 1023"
  shows "\<exists>y. fl_add (Fin s) (Fin p) = Fin y \<and> s + p \<le> 2 * y \<and> y \<le> 2 * (s + p)"
proof (cases "s + p = 0")
  case True
  then show ?thesis by (simp add: rnd_zero)
next
  case False
  then have "1 / 2 ^ 1022 \<le> s + p" using assms(3) by blast
  then show ?thesis using rnd_pos_coarse [of "s + p"] assms(4) by simp
qed

lemma square_range:
  assumes "v = 0 \<or> (1 / 2 ^ 500 \<le> \<bar>v\<bar> \<and> \<bar>v\<bar> \<le> 2 ^ 500)"
  shows "\<exists>p. fl_mul (Fin v) (Fin v) = Fin p \<and>
           (if v = 0 then p = 0 else 1 / 2 ^ 1001 \<le> p \<and> p \<le> 2 ^ 1001)"
proof (cases "v = 0")
  case True
  then show ?thesis by (simp add: rnd_zero)
next
  case False
  then have r: "1 / 2 ^ 500 \<le> \<bar>v\<bar>" "\<bar>v\<bar> \<le> 2 ^ 500" using assms by blast+
  have vv: "v * v = \<bar>v\<bar> * \<bar>v\<bar>" by simp
  have "(1 / 2 ^ 500) * (1 / 2 ^ 500) \<le> \<bar>v\<bar> * \<bar>v\<bar>"
    using r(1) by (intro mult_mono) simp_all
  then have lo: "1 / 2 ^ 1000 \<le> v * v" unfolding vv by simp
  have "\<bar>v\<bar> * \<bar>v\<bar> \<le> 2 ^ 500 * 2 ^ 500"
    using r(2) by (intro mult_mono) simp_all
  then have hi: "v * v \<le> 2 ^ 1000" unfolding vv by simp
  have lo': "1 / 2 ^ 1022 \<le> v * v"
    by (rule order_trans [OF _ lo]) simp
  have hi': "v * v \<le> 2 ^ 1023"
    by (rule order_trans [OF hi]) simp
  obtain y where y: "rnd (v * v) = Fin y" and b: "v * v \<le> 2 * y" "y \<le> 2 * (v * v)"
    using rnd_pos_coarse [OF lo' hi'] by auto
  have "1 / 2 ^ 1000 \<le> 2 * y" using lo b(1) by (rule order_trans)
  then have "1 / 2 ^ 1001 \<le> y" by simp
  moreover have "2 * (v * v) \<le> 2 * 2 ^ 1000" using hi by (rule mult_left_mono) simp
  then have "y \<le> 2 * 2 ^ 1000" using b(2) by (rule order_trans [rotated])
  then have "y \<le> 2 ^ 1001" by simp
  ultimately show ?thesis using y False by simp
qed

lemma add_step:
  assumes s: "0 \<le> s" "s = 0 \<or> l \<le> s" "s \<le> h"
    and p: "0 \<le> p" "p = 0 \<or> l \<le> p" "p \<le> h"
    and l: "1 / 2 ^ 1022 \<le> l" and h: "2 * h \<le> 2 ^ 1023"
  shows "\<exists>y. fl_add (Fin s) (Fin p) = Fin y \<and> 0 \<le> y \<and> y \<le> 4 * h \<and>
           (if s = 0 \<and> p = 0 then y = 0 else l / 2 \<le> y)"
proof (cases "s = 0 \<and> p = 0")
  case True
  then show ?thesis using s(3) by (simp add: rnd_zero)
next
  case False
  then have "l \<le> s \<or> l \<le> p" using s(2) p(2) by blast
  then have lsp: "l \<le> s + p" using s(1) p(1) by (elim disjE) linarith+
  then have n: "s + p = 0 \<or> 1 / 2 ^ 1022 \<le> s + p" using l by linarith
  have m: "s + p \<le> 2 ^ 1023" using s(3) p(3) h by linarith
  obtain y where y: "fl_add (Fin s) (Fin p) = Fin y"
    and b: "s + p \<le> 2 * y" "y \<le> 2 * (s + p)"
    using add_range [OF s(1) p(1) n m] by blast
  have "0 \<le> y" using b(1) s(1) p(1) by argo
  moreover have "y \<le> 4 * h" using b(2) s(3) p(3) by argo
  moreover have "l / 2 \<le> y" using b(1) lsp by argo
  ultimately have "0 \<le> y" "y \<le> 4 * h" "l / 2 \<le> y" by blast+
  with y False show ?thesis by auto
qed

lemma sum_squares_range:
  assumes a: "a = 0 \<or> (1 / 2 ^ 500 \<le> \<bar>a\<bar> \<and> \<bar>a\<bar> \<le> 2 ^ 500)"
    and b: "b = 0 \<or> (1 / 2 ^ 500 \<le> \<bar>b\<bar> \<and> \<bar>b\<bar> \<le> 2 ^ 500)"
    and c: "c = 0 \<or> (1 / 2 ^ 500 \<le> \<bar>c\<bar> \<and> \<bar>c\<bar> \<le> 2 ^ 500)"
    and nz: "a \<noteq> 0 \<or> b \<noteq> 0 \<or> c \<noteq> 0"
  shows "\<exists>r. sum_squares a b c = Fin r \<and> 1 / 2 ^ 1004 \<le> r \<and> r \<le> 2 ^ 1007"
proof -
  define L :: real where "L = 1 / 2 ^ 1001"
  define U :: real where "U = 2 ^ 1001"
  have LU: "0 < L" "0 < U"
    and T: "1 / 2 ^ 1022 \<le> L" "1 / 2 ^ 1022 \<le> L / 2" "1 / 2 ^ 1022 \<le> L / 2 / 2"
    and M: "2 * U \<le> 2 ^ 1023" "2 * (4 * U) \<le> 2 ^ 1023" "2 * (4 * (4 * U)) \<le> 2 ^ 1023"
    by (simp_all add: L_def U_def)
  obtain pa where pa: "fl_mul (Fin a) (Fin a) = Fin pa"
    and pa0: "if a = 0 then pa = 0 else L \<le> pa \<and> pa \<le> U"
    using square_range [OF a] unfolding L_def U_def by blast
  obtain pb where pb: "fl_mul (Fin b) (Fin b) = Fin pb"
    and pb0: "if b = 0 then pb = 0 else L \<le> pb \<and> pb \<le> U"
    using square_range [OF b] unfolding L_def U_def by blast
  obtain pc where pc: "fl_mul (Fin c) (Fin c) = Fin pc"
    and pc0: "if c = 0 then pc = 0 else L \<le> pc \<and> pc \<le> U"
    using square_range [OF c] unfolding L_def U_def by blast
  have ra: "0 \<le> pa" "pa = 0 \<or> L \<le> pa" "pa \<le> U" "pa = 0 \<longleftrightarrow> a = 0"
    using pa0 LU by (auto split: if_splits)
  have rb: "0 \<le> pb" "pb = 0 \<or> L \<le> pb" "pb \<le> U" "pb = 0 \<longleftrightarrow> b = 0"
    using pb0 LU by (auto split: if_splits)
  have rc: "0 \<le> pc" "pc = 0 \<or> L \<le> pc" "pc \<le> U" "pc = 0 \<longleftrightarrow> c = 0"
    using pc0 LU by (auto split: if_splits)
  have z: "(0::real) \<le> 0" "(0::real) = 0 \<or> L \<le> 0" "0 \<le> U" using LU by simp_all
  obtain s1 where s1: "fl_add (Fin 0) (Fin pa) = Fin s1"
    and b1: "0 \<le> s1" "s1 \<le> 4 * U" "if 0 = (0::real) \<and> pa = 0 then s1 = 0 else L / 2 \<le> s1"
    using add_step [OF z ra(1-3) T(1) M(1)] by blast
  have r1: "s1 = 0 \<or> L / 2 \<le> s1" "s1 = 0 \<longleftrightarrow> a = 0"
    using b1(3) ra(4) LU by (auto split: if_splits)
  have rb': "pb = 0 \<or> L / 2 \<le> pb" "pb \<le> 4 * U"
    using rb(2,3) LU by auto
  obtain s2 where s2: "fl_add (Fin s1) (Fin pb) = Fin s2"
    and b2: "0 \<le> s2" "s2 \<le> 4 * (4 * U)" "if s1 = 0 \<and> pb = 0 then s2 = 0 else L / 2 / 2 \<le> s2"
    using add_step [OF b1(1) r1(1) b1(2) rb(1) rb' T(2) M(2)] by blast
  have r2: "s2 = 0 \<or> L / 2 / 2 \<le> s2" "s2 = 0 \<longleftrightarrow> a = 0 \<and> b = 0"
    using b2(3) r1(2) rb(4) LU by (auto split: if_splits)
  have rc': "pc = 0 \<or> L / 2 / 2 \<le> pc" "pc \<le> 4 * (4 * U)"
    using rc(2,3) LU by auto
  obtain s3 where s3: "fl_add (Fin s2) (Fin pc) = Fin s3"
    and b3: "0 \<le> s3" "s3 \<le> 4 * (4 * (4 * U))"
      "if s2 = 0 \<and> pc = 0 then s3 = 0 else L / 2 / 2 / 2 \<le> s3"
    using add_step [OF b2(1) r2(1) b2(2) rc(1) rc' T(3) M(3)] by blast
  have "\<not> (s2 = 0 \<and> pc = 0)" using nz r2(2) rc(4) by blast
  then have "L / 2 / 2 / 2 \<le> s3" using b3(3) by (simp only: if_False)
  then have "1 / 2 ^ 1004 \<le> s3" by (simp add: L_def)
  moreover have "s3 \<le> 2 ^ 1007" using b3(2) by (simp add: U_def)
  moreover have "sum_squares a b c = Fin s3"
    by (simp only: sum_squares_def pa pb pc s1 s2 s3)
  ultimately show ?thesis by blast
qed

section \<open>Properties of the profile comparison\<close>

lemma calculateSimilarity_self:
  "calculateSimilarity m m =
     fl_div (sum_squares (avgDwell m) (avgFlight m) (avgDD m))
       (fl_mul (fl_sqrt (sum_squares (avgDwell m) (avgFlight m) (avgDD m)))
               (fl_sqrt (sum_squares (avgDwell m) (avgFlight m) (avgDD m))))"
  by (simp add: calculateSimilarity_def sum_squares_def upt_rec numeral_3_eq_3)

lemma self_quotient_near:
  assumes lo: "1 / 2 ^ 1004 \<le> r" and hi: "r \<le> 2 ^ 1007"
  shows "js_near (fl_div (Fin r) (fl_mul (fl_sqrt (Fin r)) (fl_sqrt (Fin r)))) 1 (1 / 2 ^ 50)"
proof -
  define w :: real where "w = 1 - 1 / 2 ^ 53"
  define W :: real where "W = 1 + 1 / 2 ^ 53"
  have w: "0 < w" "1 / 2 \<le> w" "w \<le> 1" and W: "0 < W" "1 \<le> W" "W \<le> 2"
    by (simp_all add: w_def W_def)
  have num: "W \<le> (1 + 1 / 2 ^ 50) * (w * w * w)" "(1 - 1 / 2 ^ 50) * (W * W * W) \<le> w"
    by (simp_all add: w_def W_def)
  have rpos: "0 < r"
  proof -
    have "(0::real) < 1 / 2 ^ 1004" by simp
    then show ?thesis using lo by argo
  qed
  define sr where "sr = sqrt r"
  have srsq: "sr * sr = r" using rpos by (simp add: sr_def)
  have srpos: "0 < sr" using rpos by (simp add: sr_def)
  have srlo: "1 / 2 ^ 502 \<le> sr"
    unfolding sr_def
  proof (rule real_le_rsqrt)
    have "((1::real) / 2 ^ 502)\<^sup>2 = 1 / 2 ^ 1004" by (simp add: power2_eq_square)
    then show "((1::real) / 2 ^ 502)\<^sup>2 \<le> r" using lo by simp
  qed
  have srhi: "sr \<le> 2 ^ 504"
    unfolding sr_def
  proof (rule real_le_lsqrt)
    show "(0::real) \<le> 2 ^ 504" by simp
    have "((2::real) ^ 504)\<^sup>2 = 2 ^ 1008" by (simp add: power2_eq_square)
    moreover have "(2::real) ^ 1007 \<le> 2 ^ 1008" by simp
    ultimately show "r \<le> ((2::real) ^ 504)\<^sup>2" using hi by argo
  qed
  have "1 / 2 ^ 1022 \<le> sr" by (rule order_trans [OF _ srlo]) simp
  moreover have "sr \<le> 2 ^ 1023" by (rule order_trans [OF srhi]) simp
  ultimately obtain g where g: "rnd sr = Fin g" and gb: "sr * w \<le> g" "g \<le> sr * W"
    using rnd_pos [of sr] unfolding w_def W_def by blast
  have mag: "fl_sqrt (Fin r) = Fin g"
    using rpos g by (simp add: sr_def)
  have gpos: "0 < g"
  proof -
    have "0 < sr * w" using srpos w(1) by simp
    then show ?thesis using gb(1) by argo
  qed
  have gglo: "r * (w * w) \<le> g * g"
  proof -
    have "(sr * w) * (sr * w) \<le> g * g"
      using gb(1) srpos w(1) gpos by (intro mult_mono) simp_all
    moreover have "(sr * w) * (sr * w) = (sr * sr) * (w * w)" by (simp add: algebra_simps)
    ultimately show ?thesis unfolding srsq by simp
  qed
  have gghi: "g * g \<le> r * (W * W)"
  proof -
    have "g * g \<le> (sr * W) * (sr * W)"
      using gb(2) gpos by (intro mult_mono) simp_all
    moreover have "(sr * W) * (sr * W) = (sr * sr) * (W * W)" by (simp add: algebra_simps)
    ultimately show ?thesis unfolding srsq by simp
  qed
  have ww: "1 / 4 \<le> w * w"
  proof -
    have "(1 / 2) * (1 / 2) \<le> w * w" using w(2) by (intro mult_mono) simp_all
    then show ?thesis by simp
  qed
  have WW: "W * W \<le> 4"
  proof -
    have "W * W \<le> 2 * 2" using W by (intro mult_mono) simp_all
    then show ?thesis by simp
  qed
  have "r * (1 / 4) \<le> r * (w * w)" using ww rpos by (intro mult_left_mono) simp_all
  then have "r * (1 / 4) \<le> g * g" using gglo by argo
  moreover have "(1 / 2 ^ 1004) * (1 / 4) \<le> r * (1 / 4)" using lo by simp
  moreover have "(1::real) / 2 ^ 1022 \<le> (1 / 2 ^ 1004) * (1 / 4)" by simp
  ultimately have n1: "1 / 2 ^ 1022 \<le> g * g" by argo
  have "r * (W * W) \<le> r * 4" using WW rpos by (intro mult_left_mono) simp_all
  then have "g * g \<le> r * 4" using gghi by argo
  moreover have "r * 4 \<le> 2 ^ 1007 * 4" using hi by simp
  moreover have "(2::real) ^ 1007 * 4 \<le> 2 ^ 1023" by simp
  ultimately have n2: "g * g \<le> 2 ^ 1023" by argo
  obtain d where d: "rnd (g * g) = Fin d" and db: "(g * g) * w \<le> d" "d \<le> (g * g) * W"
    using rnd_pos [OF n1 n2] unfolding w_def W_def by blast
  have den: "fl_mul (fl_sqrt (Fin r)) (fl_sqrt (Fin r)) = Fin d"
    unfolding mag using d by simp
  have dlo: "r * (w * w * w) \<le> d"
  proof -
    have "(r * (w * w)) * w \<le> (g * g) * w" using gglo w(1) by (intro mult_right_mono) simp_all
    then show ?thesis using db(1) by (simp add: mult.assoc)
  qed
  have dhi: "d \<le> r * (W * W * W)"
  proof -
    have "(g * g) * W \<le> (r * (W * W)) * W" using gghi W(1) by (intro mult_right_mono) simp_all
    then show ?thesis using db(2) by (simp add: mult.assoc)
  qed
  have c3: "0 < w * w * w" using w(1) by simp
  have C3: "0 < W * W * W" using W(1) by simp
  have dpos: "0 < d"
  proof -
    have "0 < r * (w * w * w)" using rpos c3 by simp
    then show ?thesis using dlo by argo
  qed
  define k where "k = r / d"
  have kpos: "0 < k" using rpos dpos by (simp add: k_def)
  have khi: "k \<le> 1 / (w * w * w)"
  proof -
    have "r / d \<le> r / (r * (w * w * w))"
      using dlo rpos c3 dpos by (intro divide_left_mono) simp_all
    then show ?thesis using rpos by (simp add: k_def)
  qed
  have klo: "1 / (W * W * W) \<le> k"
  proof -
    have "r / (r * (W * W * W)) \<le> r / d"
      using dhi rpos C3 dpos by (intro divide_left_mono) simp_all
    then show ?thesis using rpos by (simp add: k_def)
  qed
  have c3lo: "1 / 8 \<le> w * w * w"
  proof -
    have "(1 / 4) * (1 / 2) \<le> (w * w) * w" using ww w by (intro mult_mono) simp_all
    then show ?thesis by simp
  qed
  have C3hi: "W * W * W \<le> 8"
  proof -
    have "(W * W) * W \<le> 4 * 2" using WW W by (intro mult_mono) simp_all
    then show ?thesis by simp
  qed
  have "1 / (w * w * w) \<le> 1 / (1 / 8)"
    using c3lo by (intro divide_left_mono) simp_all
  then have k8: "k \<le> 8" using khi by simp
  have "1 / 8 \<le> 1 / (W * W * W)"
    using C3hi C3 by (intro divide_left_mono) simp_all
  then have k18: "1 / 8 \<le> k" using klo by argo
  have n3: "1 / 2 ^ 1022 \<le> k" by (rule order_trans [OF _ k18]) simp
  have n4: "k \<le> 2 ^ 1023" by (rule order_trans [OF k8]) simp
  obtain z where z: "rnd k = Fin z" and zb: "k * w \<le> z" "z \<le> k * W"
    using rnd_pos [OF n3 n4] unfolding w_def W_def by blast
  have res: "fl_div (Fin r) (fl_mul (fl_sqrt (Fin r)) (fl_sqrt (Fin r))) = Fin z"
    unfolding den using dpos z by (simp add: k_def)
  have "k * W \<le> (1 / (w * w * w)) * W" using khi W(1) by (intro mult_right_mono) simp_all
  moreover have "(1 / (w * w * w)) * W \<le> 1 + 1 / 2 ^ 50"
    using num(1) c3 by (simp add: pos_divide_le_eq)
  ultimately have zhi: "z \<le> 1 + 1 / 2 ^ 50" using zb(2) by argo
  have "(1 / (W * W * W)) * w \<le> k * w" using klo w(1) by (intro mult_right_mono) simp_all
  moreover have "1 - 1 / 2 ^ 50 \<le> (1 / (W * W * W)) * w"
    using num(2) C3 by (simp add: pos_le_divide_eq)
  ultimately have zlo: "1 - 1 / 2 ^ 50 \<le> z" using zb(1) by argo
  have "\<bar>z - 1\<bar> \<le> 1 / 2 ^ 50" using zlo zhi by argo
  then show ?thesis unfolding res by (simp add: js_near_def)
qed

text \<open>
  Claim C2. The similarity of two summaries should be a finite number, 0 when a feature
  vector has magnitude 0. The summary of a session with a single key press that was not
  released has the feature vector \<open>[0, 0, 0]\<close>; comparing it with itself divides 0 by 0
  and returns NaN.
\<close>

theorem calculateSimilarity_zero_vector:
  "metrics (stopCapture ''a''
      (capture False [KeyDown key_a 1012] (startCapture 1000 initial_state)))
     = Some single_press_metrics \<and>
   calculateSimilarity single_press_metrics single_press_metrics = NaN \<and>
   \<not> isFinite (calculateSimilarity single_press_metrics single_press_metrics)"
proof -
  have st: "capture False [KeyDown key_a 1012] (startCapture 1000 initial_state) =
      \<lparr>running = True, startedAt = 1000,
       events = [\<lparr>ev_type = Down, ev_code = ''KeyA'', ev_key = ''a'', ev_t = 12,
                  ev_dwell = None\<rparr>],
       metrics = None,
       keyStates = [''KeyA'' \<mapsto> \<lparr>downTime = 12, ks_key = ''a''\<rparr>],
       digraphs = []\<rparr>"
    by (simp add: capture_def startCapture_def initial_state_def handleKeyDown_def key_a_def
        Let_def)
  have w: "calculateWPM ''a'' 12 = 5000"
    by (simp add: calculateWPM_def trim_def split_whitespace_def Math_round_def
        isWhitespace_def)
  have m: "metrics (stopCapture ''a''
      (capture False [KeyDown key_a 1012] (startCapture 1000 initial_state)))
     = Some single_press_metrics"
    unfolding st
    by (simp add: stopCapture_def calculateMetrics_def w Let_def flightTimesOf_def
        ddTimesOf_def average_def standardDeviation_def single_press_metrics_def)
  have n: "calculateSimilarity single_press_metrics single_press_metrics = NaN"
    by (simp add: calculateSimilarity_self sum_squares_def single_press_metrics_def rnd_zero)
  show ?thesis using m n by (simp add: isFinite_def)
qed

text \<open>
  Claim C9, as amended. For a summary whose feature vector \<open>[avgDwell, avgFlight, avgDD]\<close>
  is not the zero vector and whose non-zero components have a magnitude between 2 to the
  power \<open>-500\<close> and 2 to the power 500, the similarity of the summary with itself is a
  finite number within 2 to the power \<open>-50\<close> of 1.
\<close>

theorem calculateSimilarity_self_near_one:
  assumes nz: "avgDwell m \<noteq> 0 \<or> avgFlight m \<noteq> 0 \<or> avgDD m \<noteq> 0"
    and a: "avgDwell m = 0 \<or> (1 / 2 ^ 500 \<le> \<bar>avgDwell m\<bar> \<and> \<bar>avgDwell m\<bar> \<le> 2 ^ 500)"
    and b: "avgFlight m = 0 \<or> (1 / 2 ^ 500 \<le> \<bar>avgFlight m\<bar> \<and> \<bar>avgFlight m\<bar> \<le> 2 ^ 500)"
    and c: "avgDD m = 0 \<or> (1 / 2 ^ 500 \<le> \<bar>avgDD m\<bar> \<and> \<bar>avgDD m\<bar> \<le> 2 ^ 500)"
  shows "js_near (calculateSimilarity m m) 1 (1 / 2 ^ 50)"
proof -
  obtain r where r: "sum_squares (avgDwell m) (avgFlight m) (avgDD m) = Fin r"
    and lo: "1 / 2 ^ 1004 \<le> r" and hi: "r \<le> 2 ^ 1007"
    using sum_squares_range [OF a b c nz] by blast
  show ?thesis
    unfolding calculateSimilarity_self r using lo hi by (rule self_quotient_near)
qed

theorem calculateSimilarity_self_near_one_witness:
  "avgDwell (single_press_metrics\<lparr>avgDwell := 100, avgFlight := 150, avgDD := 250\<rparr>) \<noteq> 0 \<and>
   js_near (calculateSimilarity
      (single_press_metrics\<lparr>avgDwell := 100, avgFlight := 150, avgDD := 250\<rparr>)
      (single_press_metrics\<lparr>avgDwell := 100, avgFlight := 150, avgDD := 250\<rparr>)) 1 (1 / 2 ^ 50)"
proof -
  have h: "avgDwell (single_press_metrics\<lparr>avgDwell := 100, avgFlight := 150, avgDD := 250\<rparr>) \<noteq> 0"
    by simp
  have "js_near (calculateSimilarity
      (single_press_metrics\<lparr>avgDwell := 100, avgFlight := 150, avgDD := 250\<rparr>)
      (single_press_metrics\<lparr>avgDwell := 100, avgFlight := 150, avgDD := 250\<rparr>)) 1 (1 / 2 ^ 50)"
    by (rule calculateSimilarity_self_near_one) simp_all
  with h show ?thesis by blast
qed

text \<open>
  The claim as stated fails where a square leaves the range of binary64. With a mean dwell
  of 2 to the power 700 the square overflows and the result is infinity divided by infinity;
  with 2 to the power \<open>-600\<close> the square underflows to 0 and the result is 0 divided by 0.
  Both vectors are non-zero and both results are NaN.
\<close>

theorem calculateSimilarity_self_near_one_counterexample:
  "avgDwell (single_press_metrics\<lparr>avgDwell := 2 ^ 700\<rparr>) \<noteq> 0 \<and>
   calculateSimilarity (single_press_metrics\<lparr>avgDwell := 2 ^ 700\<rparr>)
     (single_press_metrics\<lparr>avgDwell := 2 ^ 700\<rparr>) = NaN \<and>
   avgDwell (single_press_metrics\<lparr>avgDwell := 1 / 2 ^ 600\<rparr>) \<noteq> 0 \<and>
   calculateSimilarity (single_press_metrics\<lparr>avgDwell := 1 / 2 ^ 600\<rparr>)
     (single_press_metrics\<lparr>avgDwell := 1 / 2 ^ 600\<rparr>) = NaN \<and>
   \<not> js_near NaN 1 (1 / 2 ^ 50)"
proof -
  have "(2::real) ^ 1400 \<ge> 2 ^ 1024" by simp
  then have o: "rnd (2 ^ 1400) = PosInf" by (rule rnd_overflow)
  have big: "calculateSimilarity (single_press_metrics\<lparr>avgDwell := 2 ^ 700\<rparr>)
     (single_press_metrics\<lparr>avgDwell := 2 ^ 700\<rparr>) = NaN"
    by (simp add: calculateSimilarity_self sum_squares_def single_press_metrics_def
        rnd_zero o del: power_numeral)
  have "\<bar>(1::real) / 2 ^ 1200\<bar> < 1 / 2 ^ 1075" by simp
  then have u: "rnd (1 / 2 ^ 1200) = Fin 0" by (rule rnd_underflow)
  have tiny: "calculateSimilarity (single_press_metrics\<lparr>avgDwell := 1 / 2 ^ 600\<rparr>)
     (single_press_metrics\<lparr>avgDwell := 1 / 2 ^ 600\<rparr>) = NaN"
    by (simp add: calculateSimilarity_self sum_squares_def single_press_metrics_def
        rnd_zero u del: power_numeral)
  show ?thesis using big tiny by (simp add: js_near_def)
qed

section \<open>Properties of the profile import\<close>

text \<open>The import appends every element of the parsed array, whatever it is.\<close>

lemma handleFileImport_appends_all:
  "fst (handleFileImport (Parsed (JArr imported)) profiles) = profiles @ imported"
  by (simp add: handleFileImport_def)

text \<open>
  Claim C3. Import should validate each record and drop the malformed ones, so that a list
  of one well-formed record and one record without \<open>timestamp\<close> yields one accepted
  profile. The import handler accepts both records and reports two imported profiles; the
  filter that \<open>loadProfiles\<close> applies to stored profiles keeps only the first.
\<close>

theorem handleFileImport_keeps_malformed:
  "handleFileImport (Parsed (JArr [profile_complete, profile_no_timestamp])) []
     = ([profile_complete, profile_no_timestamp], Some (Imported 2)) \<and>
   length (fst (handleFileImport (Parsed (JArr [profile_complete, profile_no_timestamp])) [])) = 2 \<and>
   validProfile profile_complete \<and> \<not> validProfile profile_no_timestamp \<and>
   loadProfiles (Parsed (JArr [profile_complete, profile_no_timestamp])) [] = [profile_complete]"
proof -
  have v: "validProfile profile_complete"
    by (simp add: validProfile_def profile_complete_def)
  have n: "\<not> validProfile profile_no_timestamp"
    by (simp add: validProfile_def profile_no_timestamp_def)
  show ?thesis using v n by (simp add: handleFileImport_def loadProfiles_def)
qed

section \<open>Properties of the scoring\<close>

lemma benchmark_deviation:
  "js_div x (dwellTime_average benchmarks) = Fin (x / 120)"
  "js_div y (flightTime_average benchmarks) = Fin (y / 180)"
  by (simp_all add: js_div_def benchmarks_def)

lemma identifiabilityScore_buckets:
  "identifiabilityScore benchmarks m stability uniqueness =
     stability_bucket stability + uniqueness_bucket uniqueness +
     timing_bucket (\<bar>avgDwell m - 120\<bar> / 120) (\<bar>avgFlight m - 180\<bar> / 180)"
  unfolding identifiabilityScore_def Let_def benchmark_deviation
  by (simp add: js_greater_def stability_bucket_def uniqueness_bucket_def timing_bucket_def
      benchmarks_def)

lemma bucket_ranges:
  "1 \<le> stability_bucket s \<and> stability_bucket s \<le> 3"
  "1 \<le> uniqueness_bucket u \<and> uniqueness_bucket u \<le> 3"
  "0 \<le> timing_bucket a b \<and> timing_bucket a b \<le> 2"
  by (simp_all add: stability_bucket_def uniqueness_bucket_def timing_bucket_def)

text \<open>
  Claim C5. With the fixed benchmark table, the 8-point identifiability score is the sum of
  the stability bucket, the uniqueness bucket and the timing bucket, the last taken at the
  deviations of the mean dwell from 120 and of the mean flight from 180, relative to these
  averages. The score lies between 0 and 8, and the level is high exactly for a score of 7
  or more, medium exactly for 5 or 6, and low exactly for 4 or less.
\<close>

theorem identifiabilityScore_is_bucket_sum:
  "identifiabilityScore benchmarks m stability uniqueness =
     stability_bucket stability + uniqueness_bucket uniqueness +
     timing_bucket (\<bar>avgDwell m - 120\<bar> / 120) (\<bar>avgFlight m - 180\<bar> / 180) \<and>
   0 \<le> identifiabilityScore benchmarks m stability uniqueness \<and>
   identifiabilityScore benchmarks m stability uniqueness \<le> 8 \<and>
   (securityLevel (identifiabilityScore benchmarks m stability uniqueness) = High \<longleftrightarrow>
      identifiabilityScore benchmarks m stability uniqueness \<ge> 7) \<and>
   (securityLevel (identifiabilityScore benchmarks m stability uniqueness) = Medium \<longleftrightarrow>
      5 \<le> identifiabilityScore benchmarks m stability uniqueness \<and>
      identifiabilityScore benchmarks m stability uniqueness \<le> 6) \<and>
   (securityLevel (identifiabilityScore benchmarks m stability uniqueness) = Low \<longleftrightarrow>
      identifiabilityScore benchmarks m stability uniqueness \<le> 4)"
proof -
  let ?score = "identifiabilityScore benchmarks m stability uniqueness"
  have eq: "?score = stability_bucket stability + uniqueness_bucket uniqueness +
     timing_bucket (\<bar>avgDwell m - 120\<bar> / 120) (\<bar>avgFlight m - 180\<bar> / 180)"
    by (rule identifiabilityScore_buckets)
  have lo: "0 \<le> ?score" and hi: "?score \<le> 8"
    using bucket_ranges(1) [of stability] bucket_ranges(2) [of uniqueness]
      bucket_ranges(3) [of "\<bar>avgDwell m - 120\<bar> / 120" "\<bar>avgFlight m - 180\<bar> / 180"]
    unfolding eq by linarith+
  have level: "(securityLevel n = High \<longleftrightarrow> n \<ge> 7) \<and>
      (securityLevel n = Medium \<longleftrightarrow> 5 \<le> n \<and> n \<le> 6) \<and>
      (securityLevel n = Low \<longleftrightarrow> n \<le> 4)" for n
    by (simp add: securityLevel_def)
  show ?thesis using eq lo hi level [of ?score] by blast
qed

theorem identifiabilityScore_is_bucket_sum_witness:
  "identifiabilityScore benchmarks (single_press_metrics\<lparr>avgDwell := 170, avgFlight := 180\<rparr>) 80 65 = 8 \<and>
   securityLevel (identifiabilityScore benchmarks
      (single_press_metrics\<lparr>avgDwell := 170, avgFlight := 180\<rparr>) 80 65) = High"
proof -
  note sum = identifiabilityScore_is_bucket_sum
      [of "single_press_metrics\<lparr>avgDwell := 170, avgFlight := 180\<rparr>" 80 65]
  have score: "identifiabilityScore benchmarks
      (single_press_metrics\<lparr>avgDwell := 170, avgFlight := 180\<rparr>) 80 65 = 8"
    using sum by (simp add: stability_bucket_def uniqueness_bucket_def timing_bucket_def)
  have "securityLevel (identifiabilityScore benchmarks
      (single_press_metrics\<lparr>avgDwell := 170, avgFlight := 180\<rparr>) 80 65) = High"
    using sum unfolding score by simp
  with score show ?thesis by simp
qed

section \<open>Properties of the digraph classification\<close>

lemma digraph_avgTime_mean: "digraph_avgTime dd = sum_list dd / real (length dd)"
  by (simp add: digraph_avgTime_def reduce_plus)

lemma digraph_cv_percent:
  "digraph_avgTime dd \<noteq> 0 \<Longrightarrow>
   digraph_cv dd = Fin (standardDeviation dd / digraph_avgTime dd * 100)"
  by (simp add: digraph_cv_def js_div_def js_times_def)

lemma classifyDigraph_fast:
  "fast (classifyDigraph a e) =
     fast a @ (if 2 \<le> length (DD (snd e)) \<and> digraph_avgTime (DD (snd e)) < 200
               then [fst e] else [])"
  by (simp add: classifyDigraph_def Let_def)

lemma classifyDigraph_slow:
  "slow (classifyDigraph a e) =
     slow a @ (if 2 \<le> length (DD (snd e)) \<and> digraph_avgTime (DD (snd e)) > 400
               then [fst e] else [])"
  by (simp add: classifyDigraph_def Let_def)

lemma classifyDigraph_consistent:
  "consistent (classifyDigraph a e) =
     consistent a @ (if 2 \<le> length (DD (snd e)) \<and> js_less (digraph_cv (DD (snd e))) 20
                     then [fst e] else [])"
  by (simp add: classifyDigraph_def Let_def)

lemma classifyDigraph_variable:
  "variable (classifyDigraph a e) =
     variable a @ (if 2 \<le> length (DD (snd e)) \<and> js_greater (digraph_cv (DD (snd e))) 40
                   then [fst e] else [])"
  by (simp add: classifyDigraph_def Let_def)

lemma foldl_classifyDigraph_fast:
  "fast (foldl classifyDigraph a dgs) =
     fast a @ map fst (filter (\<lambda>e. 2 \<le> length (DD (snd e)) \<and>
                                    digraph_avgTime (DD (snd e)) < 200) dgs)"
  by (induction dgs arbitrary: a) (simp_all add: classifyDigraph_fast)

lemma foldl_classifyDigraph_slow:
  "slow (foldl classifyDigraph a dgs) =
     slow a @ map fst (filter (\<lambda>e. 2 \<le> length (DD (snd e)) \<and>
                                    digraph_avgTime (DD (snd e)) > 400) dgs)"
  by (induction dgs arbitrary: a) (simp_all add: classifyDigraph_slow)

lemma foldl_classifyDigraph_consistent:
  "consistent (foldl classifyDigraph a dgs) =
     consistent a @ map fst (filter (\<lambda>e. 2 \<le> length (DD (snd e)) \<and>
                                          js_less (digraph_cv (DD (snd e))) 20) dgs)"
  by (induction dgs arbitrary: a) (simp_all add: classifyDigraph_consistent)

lemma foldl_classifyDigraph_variable:
  "variable (foldl classifyDigraph a dgs) =
     variable a @ map fst (filter (\<lambda>e. 2 \<le> length (DD (snd e)) \<and>
                                        js_greater (digraph_cv (DD (snd e))) 40) dgs)"
  by (induction dgs arbitrary: a) (simp_all add: classifyDigraph_variable)

text \<open>
  Each list holds, in the order of the Map, the keys of the digraphs with at least 2 DD
  samples that pass the list's own test; a digraph can be on several lists and one with
  fewer than 2 samples is on none. The mean is the sum of the samples divided by their
  number, and the coefficient of variation is the value of \<open>(std / avgTime) * 100\<close>.
\<close>

lemma analyzeDigraphs_lists:
  "fast (analyzeDigraphs dgs) =
     map fst (filter (\<lambda>e. 2 \<le> length (DD (snd e)) \<and>
                sum_list (DD (snd e)) / real (length (DD (snd e))) < 200) dgs) \<and>
   slow (analyzeDigraphs dgs) =
     map fst (filter (\<lambda>e. 2 \<le> length (DD (snd e)) \<and>
                sum_list (DD (snd e)) / real (length (DD (snd e))) > 400) dgs) \<and>
   consistent (analyzeDigraphs dgs) =
     map fst (filter (\<lambda>e. 2 \<le> length (DD (snd e)) \<and>
                js_less (digraph_cv (DD (snd e))) 20) dgs) \<and>
   variable (analyzeDigraphs dgs) =
     map fst (filter (\<lambda>e. 2 \<le> length (DD (snd e)) \<and>
                js_greater (digraph_cv (DD (snd e))) 40) dgs)"
proof (cases dgs)
  case Nil
  then show ?thesis by (simp add: analyzeDigraphs_def)
next
  case (Cons e rest)
  then have "analyzeDigraphs dgs = foldl classifyDigraph
      \<lparr>fast = [], slow = [], consistent = [], variable = [],
       topDigraph = None, maxCount = 0\<rparr> dgs"
    by (simp add: analyzeDigraphs_def)
  then show ?thesis
    by (simp add: foldl_classifyDigraph_fast foldl_classifyDigraph_slow
        foldl_classifyDigraph_consistent foldl_classifyDigraph_variable
        digraph_avgTime_mean)
qed

lemma digraph_cv_zero_mean: "digraph_cv [0, 0] = NaN"
  by (simp add: digraph_cv_def digraph_avgTime_def standardDeviation_def average_def
      js_div_def js_times_def)

lemma analyzeDigraphs_sample:
  "fast (analyzeDigraphs sample_digraphs) = [''th'', ''qu'', ''aa''] \<and>
   slow (analyzeDigraphs sample_digraphs) = [''zz''] \<and>
   consistent (analyzeDigraphs sample_digraphs) = [''th'', ''zz''] \<and>
   variable (analyzeDigraphs sample_digraphs) = [''qu'']"
proof -
  have cv: "digraph_cv [100, 100] = Fin 0" "digraph_cv [500, 500] = Fin 0"
    "digraph_cv [1, 3] = Fin 50"
    by (simp_all add: digraph_cv_def digraph_avgTime_def standardDeviation_def average_def
        js_div_def js_times_def)
  show ?thesis
    using analyzeDigraphs_lists [of sample_digraphs]
    by (simp add: sample_digraphs_def cv digraph_cv_zero_mean js_less_def js_greater_def)
qed

text \<open>
  Claim C8. A digraph with at least 2 DD samples should be on the consistent list iff its
  coefficient of variation is below 20, where the coefficient of a zero mean is 0. When the
  keys \<open>a\<close> and \<open>b\<close> go down twice within the same clock reading, the digraph \<open>ab\<close>
  has the samples 0 and 0: its mean is 0, its standard deviation is 0, and the code computes
  \<open>(0 / 0) * 100\<close>, which is NaN. The digraph is on the fast list and on neither the
  consistent nor the variable list.
\<close>

theorem analyzeDigraphs_zero_mean_not_consistent:
  "digraphs (capture False
      [KeyDown key_a 1000, KeyDown key_b 1000, KeyUp key_a 1080, KeyUp key_b 1090,
       KeyDown key_a 1500, KeyDown key_b 1500]
      (startCapture 1000 initial_state)) = chord_digraphs \<and>
   digraph_cv [0, 0] = NaN \<and>
   fast (analyzeDigraphs chord_digraphs) = [''ab''] \<and>
   slow (analyzeDigraphs chord_digraphs) = [] \<and>
   consistent (analyzeDigraphs chord_digraphs) = [] \<and>
   variable (analyzeDigraphs chord_digraphs) = []"
proof -
  have d: "digraphs (capture False
      [KeyDown key_a 1000, KeyDown key_b 1000, KeyUp key_a 1080, KeyUp key_b 1090,
       KeyDown key_a 1500, KeyDown key_b 1500]
      (startCapture 1000 initial_state)) = chord_digraphs"
    by (simp add: capture_def startCapture_def initial_state_def handleKeyDown_def
        handleKeyUp_def key_a_def key_b_def findNextDownEvent_def nextDownFrom.simps
        findLastDownEvent_def push_DD_def ensure_digraph_def Let_def chord_digraphs_def)
  have a: "fast (analyzeDigraphs chord_digraphs) = [''ab''] \<and>
      slow (analyzeDigraphs chord_digraphs) = [] \<and>
      consistent (analyzeDigraphs chord_digraphs) = [] \<and>
      variable (analyzeDigraphs chord_digraphs) = []"
    using analyzeDigraphs_lists [of chord_digraphs]
    by (simp add: chord_digraphs_def digraph_cv_zero_mean js_less_def js_greater_def)
  show ?thesis using d a digraph_cv_zero_mean by blast
qed

end
